theory Spec2Isabelle
  imports Main "HOL-Library.Word"
begin

section \<open>Strings and paths as the Python runtime computes them\<close>

text \<open>
  A Python \<open>str\<close> is modelled as a \<open>string\<close>, one \<open>char\<close> per Python character.
  The service runs on a POSIX host (its default download root is \<open>/tmp/downloads\<close>), so
  \<open>os.path\<close> is \<open>posixpath\<close>, with separator \<open>/\<close> and extension separator \<open>.\<close>.
\<close>

text \<open>Truthiness of an \<open>Optional[str]\<close> and of an \<open>Optional[List[str]]\<close>: \<open>None\<close> and the
  empty value are false.\<close>

fun truthy :: "'a list option \<Rightarrow> bool" where
  "truthy None = False"
| "truthy (Some xs) = (xs \<noteq> [])"

text \<open>\<open>s.startswith(p)\<close> and \<open>s.endswith(p)\<close>.\<close>

definition startswith :: "string \<Rightarrow> string \<Rightarrow> bool" where
  "startswith s p = (take (length p) s = p)"

definition endswith :: "string \<Rightarrow> string \<Rightarrow> bool" where
  "endswith s p = (length p \<le> length s \<and> drop (length s - length p) s = p)"

text \<open>\<open>sep.join(xs)\<close>.\<close>

fun str_join :: "string \<Rightarrow> string list \<Rightarrow> string" where
  "str_join sep [] = []"
| "str_join sep [x] = x"
| "str_join sep (x # y # ys) = x @ sep @ str_join sep (y # ys)"

text \<open>\<open>s[-n:]\<close> for a positive \<open>n\<close>: the whole of a string no longer than \<open>n\<close>, its last
  \<open>n\<close> characters otherwise.\<close>

definition last_chars :: "nat \<Rightarrow> 'a list \<Rightarrow> 'a list" where
  "last_chars n s = drop (length s - n) s"

text \<open>\<open>s.lower()\<close>: the upper-case letters of ASCII and of Latin-1 move to their lower-case
  forms, every other character stays.\<close>

definition lower_char :: "char \<Rightarrow> char" where
  "lower_char c =
     (let n = (of_char c :: nat)
      in if (65 \<le> n \<and> n \<le> 90) \<or> (192 \<le> n \<and> n \<le> 222 \<and> n \<noteq> 215)
         then char_of (n + 32) else c)"

definition lower :: "string \<Rightarrow> string" where
  "lower s = map lower_char s"

text \<open>\<open>os.path.join(a, b)\<close> of \<open>posixpath\<close>, for two components: an absolute \<open>b\<close> replaces
  \<open>a\<close>; otherwise \<open>b\<close> is appended, after a separator unless \<open>a\<close> is empty or ends with one.\<close>

definition path_join :: "string \<Rightarrow> string \<Rightarrow> string" where
  "path_join a b =
     (if startswith b ''/'' then b
      else if a = [] \<or> endswith a ''/'' then a @ b
      else a @ ''/'' @ b)"

text \<open>\<open>s.rfind(c)\<close> for a single character: the index of its last occurrence, or \<open>-1\<close>.\<close>

fun rfind :: "string \<Rightarrow> char \<Rightarrow> int" where
  "rfind [] c = -1"
| "rfind (x # xs) c =
     (let r = rfind xs c
      in if r \<noteq> -1 then r + 1 else if x = c then 0 else -1)"

text \<open>The loop of \<open>genericpath._splitext\<close> that skips the leading dots of the file name:
  from \<open>filenameIndex\<close> up to \<open>dotIndex\<close>, is there a character other than the dot?\<close>

function has_non_dot :: "string \<Rightarrow> nat \<Rightarrow> nat \<Rightarrow> bool" where
  "has_non_dot p filenameIndex dotIndex =
     (if filenameIndex < dotIndex
      then (if take 1 (drop filenameIndex p) \<noteq> ''.'' then True
            else has_non_dot p (filenameIndex + 1) dotIndex)
      else False)"
  by pat_completeness auto
termination
  by (relation "measure (\<lambda>(p, i, d). d - i)") auto

declare has_non_dot.simps [simp del]

text \<open>\<open>os.path.splitext(p)\<close>: the path is split at its last dot when that dot lies in the
  last component and is preceded there by a character that is not a dot.\<close>

definition splitext :: "string \<Rightarrow> string \<times> string" where
  "splitext p =
     (let sepIndex = rfind p CHR ''/'';
          dotIndex = rfind p CHR ''.''
      in if dotIndex > sepIndex \<and> has_non_dot p (nat (sepIndex + 1)) (nat dotIndex)
         then (take (nat dotIndex) p, drop (nat dotIndex) p)
         else (p, []))"

text \<open>\<open>str(u)\<close> for a \<open>uuid.UUID\<close> \<open>u\<close>: the 128-bit value as 32 lower-case hexadecimal
  digits (\<open>'%032x'\<close>), grouped 8-4-4-4-12 with dashes.\<close>

definition hex_digit :: "nat \<Rightarrow> char" where
  "hex_digit d = ''0123456789abcdef'' ! d"

fun hex_fixed :: "nat \<Rightarrow> nat \<Rightarrow> string" where
  "hex_fixed 0 n = []"
| "hex_fixed (Suc k) n = hex_fixed k (n div 16) @ [hex_digit (n mod 16)]"

definition uuid_str :: "128 word \<Rightarrow> string" where
  "uuid_str u =
     (let h = hex_fixed 32 (unat u)
      in take 8 h @ ''-'' @ take 4 (drop 8 h) @ ''-'' @ take 4 (drop 12 h) @ ''-'' @
         take 4 (drop 16 h) @ ''-'' @ drop 20 h)"

section \<open>Requests\<close>

datatype media_format = Mp3 | Mp4 | Wav | Mkv | Webm | M4a | Opus

fun format_str :: "media_format \<Rightarrow> string" where
  "format_str Mp3 = ''mp3''"
| "format_str Mp4 = ''mp4''"
| "format_str Wav = ''wav''"
| "format_str Mkv = ''mkv''"
| "format_str Webm = ''webm''"
| "format_str M4a = ''m4a''"
| "format_str Opus = ''opus''"

record DownloadRequest =
  url :: string
  format :: media_format
  quality :: "string option"
  subtitles :: bool
  subtitle_langs :: "string list option"
  embed_subs :: bool
  audio_only :: bool
  filename_template :: "string option"
  ffmpeg_args :: "string list option"

record ConvertRequest =
  input_path :: string
  output_format :: media_format
  start :: "string option"
  end_time :: "string option"
  extra_args :: "string list option"

text \<open>The process environment the service reads: \<open>os.environ.get\<close> of each name.\<close>

record environ =
  DOWNLOAD_ROOT_var :: "string option"
  FFMPEG_PATH :: "string option"
  ENABLE_SPONSORBLOCK :: "string option"

definition DOWNLOAD_ROOT :: "environ \<Rightarrow> string" where
  "DOWNLOAD_ROOT ev = (case DOWNLOAD_ROOT_var ev of None \<Rightarrow> ''/tmp/downloads'' | Some d \<Rightarrow> d)"

section \<open>The fetch invocation builder\<close>

text \<open>The argument list \<open>yt_dlp_download\<close> builds before it runs the tool, step by step as
  the source appends to \<open>args\<close>.\<close>

definition outtmpl_of :: "string \<Rightarrow> DownloadRequest \<Rightarrow> string" where
  "outtmpl_of out_dir req =
     (case filename_template req of
        Some t \<Rightarrow> if t \<noteq> [] then path_join out_dir t
                  else path_join out_dir ''%(title)s-%(id)s.%(ext)s''
      | None \<Rightarrow> path_join out_dir ''%(title)s-%(id)s.%(ext)s'')"

definition base_args :: "string \<Rightarrow> DownloadRequest \<Rightarrow> string list" where
  "base_args out_dir req =
     [''yt-dlp'', url req, ''-o'', outtmpl_of out_dir req,
      ''--merge-output-format'', format_str (format req)]"

definition quality_args :: "DownloadRequest \<Rightarrow> string list" where
  "quality_args req =
     (if audio_only req then [''-x'', ''--audio-format'', format_str (format req)]
      else (case quality req of
              Some q \<Rightarrow> if q \<noteq> [] \<and> q \<noteq> ''best'' \<and> q \<noteq> ''worst'' then [''-f'', q]
                        else [''-f'', ''bestvideo+bestaudio/best'']
            | None \<Rightarrow> [''-f'', ''bestvideo+bestaudio/best'']))"

definition sub_langs :: "DownloadRequest \<Rightarrow> string" where
  "sub_langs req =
     str_join '','' (case subtitle_langs req of
                      Some ls \<Rightarrow> if ls \<noteq> [] then ls else [''en'']
                    | None \<Rightarrow> [''en''])"

definition subtitle_args :: "DownloadRequest \<Rightarrow> string list" where
  "subtitle_args req =
     (if subtitles req
      then [''--write-subs'', ''--sub-langs'', sub_langs req] @
           (if embed_subs req then [''--embed-subs''] else [])
      else [])"

definition env_args :: "environ \<Rightarrow> string list" where
  "env_args ev =
     (case FFMPEG_PATH ev of
        Some p \<Rightarrow> if p \<noteq> [] then [''--ffmpeg-location'', p] else []
      | None \<Rightarrow> []) @
     (if lower (case ENABLE_SPONSORBLOCK ev of Some v \<Rightarrow> v | None \<Rightarrow> ''false'') = ''true''
      then [''--sponsorblock-remove'', ''sponsor,intro,outro''] else [])"

definition yt_dlp_args :: "environ \<Rightarrow> string \<Rightarrow> DownloadRequest \<Rightarrow> string list" where
  "yt_dlp_args ev out_dir req =
     base_args out_dir req @ quality_args req @ subtitle_args req @ env_args ev"

section \<open>The convert invocation builder\<close>

text \<open>The output path and the command \<open>ffmpeg_convert\<close> builds once the input is known to
  exist. \<open>if req.start:\<close> tests truthiness: \<open>None\<close> and the empty string add nothing.\<close>

definition convert_out_path :: "ConvertRequest \<Rightarrow> string" where
  "convert_out_path req =
     (let base = fst (splitext (input_path req))
      in base @ ''_conv.'' @ format_str (output_format req))"

definition convert_cmd :: "ConvertRequest \<Rightarrow> string list" where
  "convert_cmd req =
     [''ffmpeg'', ''-y'', ''-i'', input_path req] @
     (case start req of Some s \<Rightarrow> if s \<noteq> [] then [''-ss'', s] else [] | None \<Rightarrow> []) @
     (case end_time req of Some e \<Rightarrow> if e \<noteq> [] then [''-to'', e] else [] | None \<Rightarrow> []) @
     (case extra_args req of Some xs \<Rightarrow> if xs \<noteq> [] then xs else [] | None \<Rightarrow> []) @
     [convert_out_path req]"

section \<open>The artifact locator\<close>

text \<open>A directory as \<open>os.scandir\<close> lists it: the names of its entries that are not
  directories, and the entries that are directories, by name, each in listing order. A
  directory entry carries its own listing, or \<open>None\<close> when \<open>os.walk\<close> yields nothing for it:
  a symbolic link to a directory (\<open>followlinks\<close> is false), or a directory that cannot be
  listed (\<open>onerror\<close> is \<open>None\<close>, so the error is dropped).\<close>

datatype fs_tree = Node (files: "string list") (subdirs: "(string \<times> fs_tree option) list")

text \<open>\<open>os.walk(top)\<close>, top-down: the triple of a directory, then the walks of the
  subdirectories it descends into, in order.\<close>

fun walk :: "string \<Rightarrow> fs_tree \<Rightarrow> (string \<times> string list \<times> string list) list" where
  "walk dirpath (Node fnames ds) =
     (dirpath, map fst ds, fnames) #
     concat (map (\<lambda>d. case snd d of
                         None \<Rightarrow> []
                       | Some t \<Rightarrow> walk (path_join dirpath (fst d)) t) ds)"

definition media_extensions :: "string list" where
  "media_extensions = [''.mp4'', ''.mp3'', ''.mkv'', ''.webm'', ''.m4a'', ''.opus'', ''.wav'']"

definition is_media :: "string \<Rightarrow> bool" where
  "is_media f = list_ex (endswith f) media_extensions"

text \<open>The inner loop over \<open>files\<close>: the first match sets \<open>chosen_file\<close> and breaks.\<close>

fun scan_files :: "string option \<Rightarrow> string \<Rightarrow> string list \<Rightarrow> string option" where
  "scan_files chosen_file root [] = chosen_file"
| "scan_files chosen_file root (f # fnames) =
     (if is_media f then Some (path_join root f) else scan_files chosen_file root fnames)"

text \<open>The outer loop over the walk: it breaks once \<open>chosen_file\<close> is truthy.\<close>

fun scan_walk :: "string option \<Rightarrow> (string \<times> string list \<times> string list) list \<Rightarrow> string option" where
  "scan_walk chosen_file [] = chosen_file"
| "scan_walk chosen_file ((root, dirs, fnames) # rest) =
     (let chosen_file' = scan_files chosen_file root fnames
      in if truthy chosen_file' then chosen_file' else scan_walk chosen_file' rest)"

definition locate :: "string \<Rightarrow> (string \<times> string list \<times> string list) list \<Rightarrow> string" where
  "locate out_dir wk =
     (case scan_walk None wk of
        Some p \<Rightarrow> if p \<noteq> [] then p else out_dir
      | None \<Rightarrow> out_dir)"

section \<open>Running the tools and recording outcomes\<close>

text \<open>The exceptions that leave the service's functions: the \<open>HTTPException\<close> the code
  raises itself, and the ones it does not catch.\<close>

datatype error =
    HTTPException nat string
  | OSError
  | ValueError
  | UnicodeDecodeError
  | Uncaught_BaseException

type_synonym byte = "8 word"

text \<open>What \<open>subprocess.run\<close> observes: \<open>Popen\<close> raised before any process ran (\<open>OSError\<close>
  when the program cannot be executed, \<open>ValueError\<close> for an argument with a NUL character),
  or the process exited with a return code and the bytes it wrote to its combined standard
  output and error.\<close>

datatype proc_result = Exited int "byte list" | SpawnFailed error

text \<open>With \<open>text=True\<close> the captured bytes are decoded (in the locale's encoding, with
  strict errors) and read with universal newlines: \<open>\r\n\<close> and \<open>\r\<close> become \<open>\n\<close>.\<close>

fun universal_newlines :: "string \<Rightarrow> string" where
  "universal_newlines [] = []"
| "universal_newlines [c] = [if c = CHR 0x0D then CHR 0x0A else c]"
| "universal_newlines (c # d # cs) =
     (if c = CHR 0x0D \<and> d = CHR 0x0A then CHR 0x0A # universal_newlines cs
      else if c = CHR 0x0D then CHR 0x0A # universal_newlines (d # cs)
      else c # universal_newlines (d # cs))"

text \<open>How a call of the \<open>database\<close> module's \<open>create_document\<close> ends: it returns, it raises
  an \<open>Exception\<close>, or it raises a \<open>BaseException\<close> that is not an \<open>Exception\<close>
  (\<open>KeyboardInterrupt\<close>, \<open>SystemExit\<close>).\<close>

datatype recorder_outcome = Stored | Raised_Exception | Raised_BaseException

datatype json = JStr string | JBool bool | JStrs "string list" | JNull

type_synonym document = "(string \<times> json) list"

record fs_view =
  path_exists :: "string \<Rightarrow> bool"
  tree_at :: "string \<Rightarrow> fs_tree option"

text \<open>The effects the service has: the commands handed to \<open>subprocess.run\<close>, the calls of
  \<open>create_document\<close>, and the documents that were stored.\<close>

record world =
  fs :: fs_view
  spawned :: "string list list"
  recorder_calls :: "(string \<times> document) list"
  stored :: "(string \<times> document) list"

text \<open>What lies outside the service: the environment, the identifier \<open>uuid.uuid4()\<close>
  returns, \<open>os.makedirs\<close> (\<open>None\<close> when it raises), the external tools (their result and what
  they do to the file system), the decoder of the locale's encoding (\<open>None\<close> when the bytes
  do not decode), the \<open>database\<close> module's \<open>create_document\<close>, and the text of a
  \<open>CalledProcessError\<close>.\<close>

record externals =
  environment :: environ
  uuid4 :: "128 word"
  makedirs :: "string \<Rightarrow> fs_view \<Rightarrow> fs_view option"
  tool_result :: "string list \<Rightarrow> fs_view \<Rightarrow> proc_result"
  tool_effect :: "string list \<Rightarrow> fs_view \<Rightarrow> fs_view"
  decode :: "byte list \<Rightarrow> string option"
  create_document :: "string \<Rightarrow> document \<Rightarrow> recorder_outcome"
  str_CalledProcessError :: "string list \<Rightarrow> int \<Rightarrow> string"

definition run_cmd :: "externals \<Rightarrow> world \<Rightarrow> string list \<Rightarrow> (error + string) \<times> world" where
  "run_cmd ext w cmd =
     (let w1 = w\<lparr>spawned := spawned w @ [cmd]\<rparr>
      in case tool_result ext cmd (fs w) of
           SpawnFailed e \<Rightarrow> (Inl e, w1)
         | Exited returncode raw \<Rightarrow>
             (let w2 = w1\<lparr>fs := tool_effect ext cmd (fs w)\<rparr>
              in case decode ext raw of
                   None \<Rightarrow> (Inl UnicodeDecodeError, w2)
                 | Some text \<Rightarrow>
                     (let stdout = universal_newlines text
                      in if returncode = 0 then (Inr stdout, w2)
                         else (Inl (HTTPException 500
                                 (if stdout \<noteq> [] then last_chars 2000 stdout
                                  else str_CalledProcessError ext cmd returncode)), w2))))"

text \<open>\<open>try: create_document(...) except Exception: pass\<close>: one call; an \<open>Exception\<close> it
  raises is dropped, any other \<open>BaseException\<close> is not caught and leaves the caller.\<close>

definition try_create_document ::
  "externals \<Rightarrow> world \<Rightarrow> string \<Rightarrow> document \<Rightarrow> error option \<times> world" where
  "try_create_document ext w collection doc =
     (let w1 = w\<lparr>recorder_calls := recorder_calls w @ [(collection, doc)]\<rparr>
      in case create_document ext collection doc of
           Stored \<Rightarrow> (None, w1\<lparr>stored := stored w @ [(collection, doc)]\<rparr>)
         | Raised_Exception \<Rightarrow> (None, w1)
         | Raised_BaseException \<Rightarrow> (Some Uncaught_BaseException, w1))"

definition session_dir :: "externals \<Rightarrow> string" where
  "session_dir ext = path_join (DOWNLOAD_ROOT (environment ext)) (uuid_str (uuid4 ext))"

definition history_doc :: "externals \<Rightarrow> DownloadRequest \<Rightarrow> string \<Rightarrow> string \<Rightarrow> document" where
  "history_doc ext req chosen_file output =
     [(''session_id'', JStr (uuid_str (uuid4 ext))),
      (''url'', JStr (url req)),
      (''format'', JStr (format_str (format req))),
      (''audio_only'', JBool (audio_only req)),
      (''subtitles'', JBool (subtitles req)),
      (''embed_subs'', JBool (embed_subs req)),
      (''out_dir'', JStr (session_dir ext)),
      (''output_hint'', JStr chosen_file),
      (''stdout'', JStr output)]"

text \<open>The scan of \<open>out_dir\<close> after the tool has run: \<open>os.walk\<close> yields nothing when
  \<open>out_dir\<close> cannot be listed.\<close>

definition find_artifact :: "fs_view \<Rightarrow> string \<Rightarrow> string" where
  "find_artifact fv out_dir =
     locate out_dir (case tree_at fv out_dir of None \<Rightarrow> [] | Some t \<Rightarrow> walk out_dir t)"

definition yt_dlp_download :: "externals \<Rightarrow> world \<Rightarrow> DownloadRequest \<Rightarrow> (error + string) \<times> world" where
  "yt_dlp_download ext w req =
     (let out_dir = session_dir ext
      in case makedirs ext out_dir (fs w) of
           None \<Rightarrow> (Inl OSError, w)
         | Some f1 \<Rightarrow>
             (case run_cmd ext (w\<lparr>fs := f1\<rparr>) (yt_dlp_args (environment ext) out_dir req) of
                (Inl e, w2) \<Rightarrow> (Inl e, w2)
              | (Inr output, w2) \<Rightarrow>
                  (let chosen_file = find_artifact (fs w2) out_dir
                   in case try_create_document ext w2 ''history''
                             (history_doc ext req chosen_file output) of
                        (None, w3) \<Rightarrow> (Inr chosen_file, w3)
                      | (Some e, w3) \<Rightarrow> (Inl e, w3))))"


definition conversion_doc :: "ConvertRequest \<Rightarrow> document" where
  "conversion_doc req =
     [(''input'', JStr (input_path req)),
      (''output'', JStr (convert_out_path req)),
      (''extra_args'', (case extra_args req of None \<Rightarrow> JNull | Some xs \<Rightarrow> JStrs xs))]"

definition ffmpeg_convert :: "externals \<Rightarrow> world \<Rightarrow> ConvertRequest \<Rightarrow> (error + string) \<times> world" where
  "ffmpeg_convert ext w req =
     (if \<not> path_exists (fs w) (input_path req)
      then (Inl (HTTPException 404 ''Input file not found''), w)
      else (case run_cmd ext w (convert_cmd req) of
              (Inl e, w') \<Rightarrow> (Inl e, w')
            | (Inr output, w') \<Rightarrow>
                (case try_create_document ext w' ''conversions'' (conversion_doc req) of
                   (None, w'') \<Rightarrow> (Inr (convert_out_path req), w'')
                 | (Some e, w'') \<Rightarrow> (Inl e, w''))))"

definition convert_media ::
  "externals \<Rightarrow> world \<Rightarrow> ConvertRequest \<Rightarrow> (error + (string \<times> string) list) \<times> world" where
  "convert_media ext w req =
     (case ffmpeg_convert ext w req of
        (Inl e, w') \<Rightarrow> (Inl e, w')
      | (Inr out_path, w') \<Rightarrow> (Inr [(''output'', out_path)], w'))"

text \<open>The walk order flattened to (directory, file name) pairs: the order in which the two
  nested loops of the locator look at files.\<close>

definition walk_entries :: "(string \<times> string list \<times> string list) list \<Rightarrow> (string \<times> string) list" where
  "walk_entries wk = concat (map (\<lambda>(root, dirs, fnames). map (Pair root) fnames) wk)"

section \<open>Concrete requests, environments and file systems\<close>

definition req_best :: DownloadRequest where
  "req_best = \<lparr>url = ''http://x/video'', format = Mp4, quality = Some ''best'',
     subtitles = False, subtitle_langs = Some [''en''], embed_subs = False,
     audio_only = False, filename_template = None, ffmpeg_args = None\<rparr>"

definition env_empty :: environ where
  "env_empty = \<lparr>DOWNLOAD_ROOT_var = None, FFMPEG_PATH = None, ENABLE_SPONSORBLOCK = None\<rparr>"

definition req_audio_dash_f :: DownloadRequest where
  "req_audio_dash_f = \<lparr>url = ''-f'', format = Mp3, quality = Some ''best'',
     subtitles = False, subtitle_langs = Some [''en''], embed_subs = False,
     audio_only = True, filename_template = None, ffmpeg_args = None\<rparr>"

definition req_audio_custom :: DownloadRequest where
  "req_audio_custom = \<lparr>url = ''http://x/audio'', format = Mp3, quality = Some ''137+140'',
     subtitles = False, subtitle_langs = Some [''en''], embed_subs = False,
     audio_only = True, filename_template = None, ffmpeg_args = None\<rparr>"

definition req_url_write_subs :: DownloadRequest where
  "req_url_write_subs = \<lparr>url = ''--write-subs'', format = Mp4, quality = Some ''best'',
     subtitles = False, subtitle_langs = Some [''en''], embed_subs = True,
     audio_only = False, filename_template = None, ffmpeg_args = None\<rparr>"

definition fs_empty :: fs_view where
  "fs_empty = \<lparr>path_exists = (\<lambda>p. False), tree_at = (\<lambda>p. None)\<rparr>"

definition world_empty :: world where
  "world_empty = \<lparr>fs = fs_empty, spawned = [], recorder_calls = [], stored = []\<rparr>"

text \<open>A strict ASCII codec, for the locale's encoding in the examples.\<close>

definition ascii_bytes :: "string \<Rightarrow> byte list" where
  "ascii_bytes s = map (\<lambda>c. of_nat (of_char c)) s"

definition ascii_decode :: "byte list \<Rightarrow> string option" where
  "ascii_decode bs =
     (if list_all (\<lambda>b. unat b < 128) bs then Some (map (\<lambda>b. char_of (unat b)) bs) else None)"

definition ext_ok :: externals where
  "ext_ok = \<lparr>environment = env_empty, uuid4 = 0,
     makedirs = (\<lambda>d f. Some f),
     tool_result = (\<lambda>cmd f. Exited 0 (ascii_bytes ''done'')),
     tool_effect = (\<lambda>cmd f. f),
     decode = ascii_decode,
     create_document = (\<lambda>c d. Stored),
     str_CalledProcessError = (\<lambda>cmd rc. ''Command returned non-zero exit status.'')\<rparr>"

definition req_subs_no_langs :: DownloadRequest where
  "req_subs_no_langs = \<lparr>url = ''http://x/video'', format = Mp4, quality = Some ''best'',
     subtitles = True, subtitle_langs = Some [], embed_subs = True,
     audio_only = False, filename_template = None, ffmpeg_args = None\<rparr>"

definition req_convert :: ConvertRequest where
  "req_convert = \<lparr>input_path = ''a/video.mp4'', output_format = Mp3, start = None,
     end_time = None, extra_args = None\<rparr>"

definition probe_cmd :: "string list" where
  "probe_cmd = [''ffprobe'', ''-hide_banner'', ''-i'', ''a/video.mp4'']"

definition ext_fail_silent :: externals where
  "ext_fail_silent = ext_ok\<lparr>
     tool_result := (\<lambda>cmd f. Exited 1 []),
     str_CalledProcessError := (\<lambda>cmd rc.
       ''Command '['ffprobe', '-hide_banner', '-i', 'a/video.mp4']' returned non-zero exit status 1.'')\<rparr>"

definition ext_fail_noisy :: externals where
  "ext_fail_noisy = ext_ok\<lparr>
     tool_result := (\<lambda>cmd f. Exited 1
       (ascii_bytes (replicate 2500 CHR ''x'' @ ''a/video.mp4: Invalid data'')))\<rparr>"

definition ext_undecodable :: externals where
  "ext_undecodable = ext_ok\<lparr>tool_result := (\<lambda>cmd f. Exited 0 [0x6F, 0x6B, 0xFF])\<rparr>"

text \<open>Two session workspaces.\<close>

definition tree_info_only :: fs_tree where
  "tree_info_only = Node [''video.info.json''] []"

definition tree_nested :: fs_tree where
  "tree_nested =
     Node [''notes.txt'', ''clip.MP4'']
       [(''linked'', None),
        (''thumbs'', Some (Node [''cover.jpg''] [])),
        (''media'', Some (Node [''a.webm'', ''b.mp3''] []))]"

text \<open>A workspace after a download, and recorders that fail.\<close>

definition fs_downloaded :: fs_view where
  "fs_downloaded =
     \<lparr>path_exists = (\<lambda>p. p = ''a/video.mp4''),
      tree_at = (\<lambda>p. if p = ''/tmp/downloads/00000000-0000-0000-0000-000000000000''
                      then Some (Node [''video.info.json'', ''video.mp4''] []) else None)\<rparr>"

definition world_with_video :: world where
  "world_with_video = world_empty\<lparr>fs := fs_downloaded\<rparr>"


definition ext_recorder_interrupted :: externals where
  "ext_recorder_interrupted = ext_ok\<lparr>create_document := (\<lambda>c d. Raised_BaseException)\<rparr>"

text \<open>Two conversion requests.\<close>

definition req_trim :: ConvertRequest where
  "req_trim = \<lparr>input_path = ''a/video.mp4'', output_format = Mp3, start = Some ''00:00:10'',
     end_time = Some ''00:00:20'', extra_args = Some [''-vn'', ''-b:a'', ''192k'']\<rparr>"

definition req_empty_start :: ConvertRequest where
  "req_empty_start = \<lparr>input_path = ''a/video.mp4'', output_format = Mp3, start = Some '''',
     end_time = None, extra_args = None\<rparr>"

section \<open>Properties of the string and path functions\<close>

lemma hex_digit_in: "d < 16 \<Longrightarrow> hex_digit d \<in> set ''0123456789abcdef''"
  unfolding hex_digit_def by (rule nth_mem) simp

lemma length_hex_fixed: "length (hex_fixed k n) = k"
  by (induction k arbitrary: n) simp_all

lemma set_hex_fixed: "set (hex_fixed k n) \<subseteq> set ''0123456789abcdef''"
proof (induction k arbitrary: n)
  case 0
  show ?case by simp
next
  case (Suc k)
  have "hex_digit (n mod 16) \<in> set ''0123456789abcdef''"
    by (rule hex_digit_in) simp
  with Suc [of "n div 16"] show ?case by simp
qed

lemma slash_not_hex: "CHR ''/'' \<notin> set (hex_fixed k n)"
  using set_hex_fixed [of k n] by auto

lemma uuid_str_no_slash: "CHR ''/'' \<notin> set (uuid_str u)"
  unfolding uuid_str_def Let_def
  using slash_not_hex by (auto dest: in_set_takeD in_set_dropD)

lemma uuid_str_length: "length (uuid_str u) = 36"
  unfolding uuid_str_def Let_def by (simp add: length_hex_fixed)

lemma uuid_str_nonempty: "uuid_str u \<noteq> []"
  using uuid_str_length [of u] by auto

section \<open>The fetch invocation builder: quality policy\<close>

lemma length_base_args: "length (base_args out_dir req) = 6"
  by (simp add: base_args_def)

lemma quality_args_default:
  assumes "\<not> audio_only req"
    and "quality req = Some ''best'' \<or> quality req = Some ''worst'' \<or> quality req = None"
  shows "quality_args req = [''-f'', ''bestvideo+bestaudio/best'']"
  using assms by (auto simp: quality_args_def)

text \<open>
  C1. For a request that is not audio-only and whose quality is \<open>best\<close>, \<open>worst\<close> or absent,
  the argument list is the six base arguments followed by the selector pair
  \<open>-f bestvideo+bestaudio/best\<close> (at positions 6 and 7), then the subtitle and environment
  flags; and the list built for \<open>worst\<close> is the list built for \<open>best\<close>: \<open>worst\<close> is not
  special-cased.
\<close>

theorem default_selector_for_presets:
  assumes "\<not> audio_only req"
    and "quality req = Some ''best'' \<or> quality req = Some ''worst'' \<or> quality req = None"
  shows "yt_dlp_args ev out_dir req =
           base_args out_dir req @ [''-f'', ''bestvideo+bestaudio/best''] @
           subtitle_args req @ env_args ev
         \<and> yt_dlp_args ev out_dir req ! 6 = ''-f''
         \<and> yt_dlp_args ev out_dir req ! 7 = ''bestvideo+bestaudio/best''
         \<and> yt_dlp_args ev out_dir (req\<lparr>quality := Some ''worst''\<rparr>) =
           yt_dlp_args ev out_dir (req\<lparr>quality := Some ''best''\<rparr>)"
proof -
  have q: "quality_args req = [''-f'', ''bestvideo+bestaudio/best'']"
    using assms by (rule quality_args_default)
  have eq: "yt_dlp_args ev out_dir req =
      base_args out_dir req @ [''-f'', ''bestvideo+bestaudio/best''] @
      subtitle_args req @ env_args ev"
    by (simp add: yt_dlp_args_def q)
  have n6: "yt_dlp_args ev out_dir req ! 6 = ''-f''"
    by (simp add: eq nth_append length_base_args)
  have n7: "yt_dlp_args ev out_dir req ! 7 = ''bestvideo+bestaudio/best''"
    by (simp add: eq nth_append length_base_args)
  have same: "yt_dlp_args ev out_dir (req\<lparr>quality := Some ''worst''\<rparr>) =
      yt_dlp_args ev out_dir (req\<lparr>quality := Some ''best''\<rparr>)"
    by (simp add: yt_dlp_args_def base_args_def outtmpl_of_def quality_args_def
        subtitle_args_def sub_langs_def)
  from eq n6 n7 same show ?thesis by blast
qed

theorem default_selector_for_presets_witness:
  "yt_dlp_args env_empty ''/tmp/downloads/s'' req_best =
     [''yt-dlp'', ''http://x/video'', ''-o'', ''/tmp/downloads/s/%(title)s-%(id)s.%(ext)s'',
      ''--merge-output-format'', ''mp4'', ''-f'', ''bestvideo+bestaudio/best'']
   \<and> yt_dlp_args env_empty ''/tmp/downloads/s'' (req_best\<lparr>quality := Some ''worst''\<rparr>) ! 7
       = ''bestvideo+bestaudio/best''"
proof -
  have a: "\<not> audio_only req_best" by (simp add: req_best_def)
  have b: "quality req_best = Some ''best'' \<or> quality req_best = Some ''worst'' \<or>
           quality req_best = None"
    by (simp add: req_best_def)
  have a': "\<not> audio_only (req_best\<lparr>quality := Some ''worst''\<rparr>)" by (simp add: req_best_def)
  have b': "quality (req_best\<lparr>quality := Some ''worst''\<rparr>) = Some ''best'' \<or>
            quality (req_best\<lparr>quality := Some ''worst''\<rparr>) = Some ''worst'' \<or>
            quality (req_best\<lparr>quality := Some ''worst''\<rparr>) = None"
    by simp
  from default_selector_for_presets [OF a b, of env_empty "''/tmp/downloads/s''"]
  have "yt_dlp_args env_empty ''/tmp/downloads/s'' req_best =
     [''yt-dlp'', ''http://x/video'', ''-o'', ''/tmp/downloads/s/%(title)s-%(id)s.%(ext)s'',
      ''--merge-output-format'', ''mp4'', ''-f'', ''bestvideo+bestaudio/best'']"
    by (simp add: base_args_def outtmpl_of_def path_join_def startswith_def endswith_def
        subtitle_args_def env_args_def req_best_def env_empty_def lower_def lower_char_def)
  moreover from default_selector_for_presets [OF a' b', of env_empty "''/tmp/downloads/s''"]
  have "yt_dlp_args env_empty ''/tmp/downloads/s'' (req_best\<lparr>quality := Some ''worst''\<rparr>) ! 7
       = ''bestvideo+bestaudio/best''" by blast
  ultimately show ?thesis by blast
qed

lemma startswith_slash: "startswith b ''/'' \<longleftrightarrow> (\<exists>t. b = CHR ''/'' # t)"
  by (cases b) (auto simp: startswith_def)

lemma endswith_slash: "endswith a ''/'' \<longleftrightarrow> (a \<noteq> [] \<and> last a = CHR ''/'')"
proof (cases a rule: rev_cases)
  case Nil
  then show ?thesis by (simp add: endswith_def)
next
  case (snoc ys y)
  then show ?thesis by (auto simp: endswith_def)
qed

lemma path_join_has_slash:
  assumes "a \<noteq> []" and "last a \<noteq> CHR ''/''"
  shows "CHR ''/'' \<in> set (path_join a b)"
  using assms by (auto simp: path_join_def startswith_slash endswith_slash)

lemma path_join_nonempty: "b \<noteq> [] \<Longrightarrow> path_join a b \<noteq> []"
  by (auto simp: path_join_def)

lemma path_join_relative:
  assumes "b \<noteq> []" and "CHR ''/'' \<notin> set b"
  shows "path_join a b = a @ b \<or> path_join a b = a @ ''/'' @ b"
  using assms by (auto simp: path_join_def startswith_slash)

lemma session_dir_shape:
  "session_dir ext \<noteq> [] \<and> last (session_dir ext) \<noteq> CHR ''/''"
proof -
  let ?u = "uuid_str (uuid4 ext)"
  have ne: "?u \<noteq> []" by (rule uuid_str_nonempty)
  have ns: "CHR ''/'' \<notin> set ?u" by (rule uuid_str_no_slash)
  from ne have "last ?u \<in> set ?u" by simp
  with ns have l: "last ?u \<noteq> CHR ''/''" by metis
  from path_join_relative [OF ne ns, of "DOWNLOAD_ROOT (environment ext)"]
  show ?thesis using ne l by (auto simp: session_dir_def)
qed

lemma outtmpl_has_slash: "CHR ''/'' \<in> set (outtmpl_of (session_dir ext) req)"
  using session_dir_shape [of ext]
  by (auto simp: outtmpl_of_def intro: path_join_has_slash split: option.splits)

lemma format_str_plain:
  "format_str f \<noteq> ''-f'' \<and> format_str f \<noteq> ''--write-subs'' \<and> format_str f \<noteq> ''--sub-langs''
   \<and> format_str f \<noteq> ''--embed-subs''"
  by (cases f) simp_all

lemma set_env_args:
  "set (env_args ev) \<subseteq>
     {''--ffmpeg-location'', ''--sponsorblock-remove'', ''sponsor,intro,outro''} \<union>
     (case FFMPEG_PATH ev of None \<Rightarrow> {} | Some p \<Rightarrow> {p})"
  by (auto simp: env_args_def split: option.splits if_splits)



section \<open>The fetch invocation builder: audio-only and subtitles\<close>

lemma yt_dlp_args_set:
  "set (yt_dlp_args ev out_dir req) =
     set (base_args out_dir req) \<union> set (quality_args req) \<union> set (subtitle_args req) \<union>
     set (env_args ev)"
  by (auto simp: yt_dlp_args_def)

lemma in_env_args:
  assumes "x \<in> set (env_args ev)"
  shows "x = ''--ffmpeg-location'' \<or> x = ''--sponsorblock-remove'' \<or>
         x = ''sponsor,intro,outro'' \<or> FFMPEG_PATH ev = Some x"
  using assms by (auto simp: env_args_def split: option.splits if_splits)

lemma in_base_args:
  assumes "x \<in> set (base_args out_dir req)"
  shows "x = ''yt-dlp'' \<or> x = url req \<or> x = ''-o'' \<or> x = outtmpl_of out_dir req \<or>
         x = ''--merge-output-format'' \<or> x = format_str (format req)"
  using assms by (auto simp: base_args_def)

lemma in_subtitle_args:
  assumes "x \<in> set (subtitle_args req)"
  shows "subtitles req \<and> (x = ''--write-subs'' \<or> x = ''--sub-langs'' \<or> x = sub_langs req \<or>
         x = ''--embed-subs'')"
  using assms by (auto simp: subtitle_args_def split: if_splits)

lemma in_quality_args_audio:
  assumes "x \<in> set (quality_args req)" and "audio_only req"
  shows "x = ''-x'' \<or> x = ''--audio-format'' \<or> x = format_str (format req)"
  using assms by (auto simp: quality_args_def)

lemma in_quality_args_video:
  assumes "x \<in> set (quality_args req)" and "\<not> audio_only req"
  shows "x = ''-f'' \<or> x = ''bestvideo+bestaudio/best'' \<or> quality req = Some x"
  using assms by (auto simp: quality_args_def split: option.splits if_splits)

lemma no_slash_not_outtmpl:
  assumes "CHR ''/'' \<notin> set x"
  shows "x \<noteq> outtmpl_of (session_dir ext) req"
  using assms outtmpl_has_slash [of ext req] by auto

text \<open>
  C2 (as amended). For an audio-only request the argument list is the six base arguments,
  then \<open>-x --audio-format\<close> with the requested format, then the subtitle and environment
  flags; it does not depend on the quality string, so the audio-only branch wins over a
  custom quality. The builder adds no \<open>-f\<close>: the token \<open>-f\<close> occurs in the list only where
  the URL, the joined subtitle languages or \<open>FFMPEG_PATH\<close> is itself \<open>-f\<close>.
\<close>

theorem audio_only_takes_precedence:
  assumes "audio_only req"
  shows "yt_dlp_args ev out_dir req =
           base_args out_dir req @ [''-x'', ''--audio-format'', format_str (format req)] @
           subtitle_args req @ env_args ev
         \<and> (\<forall>q. yt_dlp_args ev out_dir (req\<lparr>quality := q\<rparr>) = yt_dlp_args ev out_dir req)
         \<and> (''-f'' \<in> set (yt_dlp_args (environment ext) (session_dir ext) req) \<longrightarrow>
              url req = ''-f'' \<or> (subtitles req \<and> sub_langs req = ''-f'') \<or>
              FFMPEG_PATH (environment ext) = Some ''-f'')"
proof -
  have eq: "yt_dlp_args ev out_dir req =
           base_args out_dir req @ [''-x'', ''--audio-format'', format_str (format req)] @
           subtitle_args req @ env_args ev"
    using assms by (simp add: yt_dlp_args_def quality_args_def)
  have indep: "\<forall>q. yt_dlp_args ev out_dir (req\<lparr>quality := q\<rparr>) = yt_dlp_args ev out_dir req"
    using assms
    by (simp add: yt_dlp_args_def quality_args_def base_args_def outtmpl_of_def
        subtitle_args_def sub_langs_def)
  have only: "url req = ''-f'' \<or> (subtitles req \<and> sub_langs req = ''-f'') \<or>
              FFMPEG_PATH (environment ext) = Some ''-f''"
    if mem: "''-f'' \<in> set (yt_dlp_args (environment ext) (session_dir ext) req)"
  proof -
    have tmpl: "''-f'' \<noteq> outtmpl_of (session_dir ext) req"
      by (rule no_slash_not_outtmpl) simp
    from mem consider
        (b) "''-f'' \<in> set (base_args (session_dir ext) req)"
      | (q) "''-f'' \<in> set (quality_args req)"
      | (s) "''-f'' \<in> set (subtitle_args req)"
      | (e) "''-f'' \<in> set (env_args (environment ext))"
      by (auto simp: yt_dlp_args_set)
    then show ?thesis
    proof cases
      case b
      from in_base_args [OF b] tmpl format_str_plain [of "format req"]
      show ?thesis by auto
    next
      case q
      from in_quality_args_audio [OF q assms] format_str_plain [of "format req"]
      show ?thesis by auto
    next
      case s
      from in_subtitle_args [OF s] show ?thesis by auto
    next
      case e
      from in_env_args [OF e] show ?thesis by auto
    qed
  qed
  from eq indep only show ?thesis by blast
qed

theorem audio_only_takes_precedence_witness:
  "yt_dlp_args env_empty ''/tmp/downloads/s'' req_audio_custom =
     [''yt-dlp'', ''http://x/audio'', ''-o'', ''/tmp/downloads/s/%(title)s-%(id)s.%(ext)s'',
      ''--merge-output-format'', ''mp3'', ''-x'', ''--audio-format'', ''mp3'']
   \<and> ''-f'' \<notin> set (yt_dlp_args (environment ext_ok) (session_dir ext_ok) req_audio_custom)"
proof -
  have a: "audio_only req_audio_custom" by (simp add: req_audio_custom_def)
  note t = audio_only_takes_precedence [OF a, of env_empty "''/tmp/downloads/s''" ext_ok]
  from t have "yt_dlp_args env_empty ''/tmp/downloads/s'' req_audio_custom =
     [''yt-dlp'', ''http://x/audio'', ''-o'', ''/tmp/downloads/s/%(title)s-%(id)s.%(ext)s'',
      ''--merge-output-format'', ''mp3'', ''-x'', ''--audio-format'', ''mp3'']"
    by (simp add: base_args_def outtmpl_of_def path_join_def startswith_def endswith_def
        subtitle_args_def env_args_def req_audio_custom_def env_empty_def lower_def lower_char_def)
  moreover from t have
    "''-f'' \<notin> set (yt_dlp_args (environment ext_ok) (session_dir ext_ok) req_audio_custom)"
    by (auto simp: req_audio_custom_def ext_ok_def env_empty_def)
  ultimately show ?thesis by blast
qed

text \<open>
  The claim as first stated (no \<open>-f\<close> in the list of any audio-only request) fails for the
  request whose URL is the string \<open>-f\<close>: the URL is the second token of the list.
\<close>

theorem audio_only_dash_f_counterexample:
  "audio_only req_audio_dash_f
   \<and> yt_dlp_args env_empty ''/tmp/downloads/s'' req_audio_dash_f =
     [''yt-dlp'', ''-f'', ''-o'', ''/tmp/downloads/s/%(title)s-%(id)s.%(ext)s'',
      ''--merge-output-format'', ''mp3'', ''-x'', ''--audio-format'', ''mp3'']
   \<and> ''-f'' \<in> set (yt_dlp_args env_empty ''/tmp/downloads/s'' req_audio_dash_f)"
  by (simp add: yt_dlp_args_def base_args_def quality_args_def outtmpl_of_def path_join_def
      startswith_def endswith_def subtitle_args_def env_args_def req_audio_dash_f_def
      env_empty_def lower_def lower_char_def)

text \<open>
  C3 (as amended). For a request with \<open>subtitles = False\<close> the subtitle step appends nothing:
  the argument list is the base arguments, the quality arguments and the environment flags,
  and it is the same for every value of \<open>embed_subs\<close> and \<open>subtitle_langs\<close>. One of the
  strings \<open>--write-subs\<close>, \<open>--sub-langs\<close>, \<open>--embed-subs\<close> occurs in the list only where the
  URL, a custom quality string or \<open>FFMPEG_PATH\<close> is itself that string.
\<close>

theorem no_subtitle_flags_without_subtitles:
  assumes "\<not> subtitles req"
  shows "yt_dlp_args ev out_dir req = base_args out_dir req @ quality_args req @ env_args ev
         \<and> (\<forall>e l. yt_dlp_args ev out_dir (req\<lparr>embed_subs := e, subtitle_langs := l\<rparr>) =
                   yt_dlp_args ev out_dir req)
         \<and> (\<forall>flag \<in> {''--write-subs'', ''--sub-langs'', ''--embed-subs''}.
              flag \<in> set (yt_dlp_args (environment ext) (session_dir ext) req) \<longrightarrow>
                url req = flag \<or> (\<not> audio_only req \<and> quality req = Some flag) \<or>
                FFMPEG_PATH (environment ext) = Some flag)"
proof -
  have eq: "yt_dlp_args ev out_dir req = base_args out_dir req @ quality_args req @ env_args ev"
    using assms by (simp add: yt_dlp_args_def subtitle_args_def)
  have indep: "\<forall>e l. yt_dlp_args ev out_dir (req\<lparr>embed_subs := e, subtitle_langs := l\<rparr>) =
                   yt_dlp_args ev out_dir req"
    using assms
    by (simp add: yt_dlp_args_def quality_args_def base_args_def outtmpl_of_def
        subtitle_args_def)
  have only: "url req = flag \<or> (\<not> audio_only req \<and> quality req = Some flag) \<or>
              FFMPEG_PATH (environment ext) = Some flag"
    if fl: "flag \<in> {''--write-subs'', ''--sub-langs'', ''--embed-subs''}"
      and mem: "flag \<in> set (yt_dlp_args (environment ext) (session_dir ext) req)" for flag
  proof -
    from fl have ns: "CHR ''/'' \<notin> set flag" by auto
    have tmpl: "flag \<noteq> outtmpl_of (session_dir ext) req"
      using ns by (rule no_slash_not_outtmpl)
    from assms have nosub: "subtitle_args req = []" by (simp add: subtitle_args_def)
    from mem nosub consider
        (b) "flag \<in> set (base_args (session_dir ext) req)"
      | (q) "flag \<in> set (quality_args req)"
      | (e) "flag \<in> set (env_args (environment ext))"
      by (auto simp: yt_dlp_args_set)
    then show ?thesis
    proof cases
      case b
      from in_base_args [OF b] tmpl format_str_plain [of "format req"] fl
      show ?thesis by auto
    next
      case q
      show ?thesis
      proof (cases "audio_only req")
        case True
        from in_quality_args_audio [OF q True] format_str_plain [of "format req"] fl
        show ?thesis by auto
      next
        case False
        from in_quality_args_video [OF q False] fl False
        show ?thesis by auto
      qed
    next
      case e
      from in_env_args [OF e] fl show ?thesis by auto
    qed
  qed
  from eq indep only show ?thesis by blast
qed

theorem no_subtitle_flags_without_subtitles_witness:
  "yt_dlp_args env_empty ''/tmp/downloads/s''
     (req_best\<lparr>embed_subs := True, subtitle_langs := Some [''de'', ''fr'']\<rparr>) =
     [''yt-dlp'', ''http://x/video'', ''-o'', ''/tmp/downloads/s/%(title)s-%(id)s.%(ext)s'',
      ''--merge-output-format'', ''mp4'', ''-f'', ''bestvideo+bestaudio/best'']
   \<and> ''--write-subs'' \<notin> set (yt_dlp_args (environment ext_ok) (session_dir ext_ok) req_best)
   \<and> ''--sub-langs'' \<notin> set (yt_dlp_args (environment ext_ok) (session_dir ext_ok) req_best)
   \<and> ''--embed-subs'' \<notin> set (yt_dlp_args (environment ext_ok) (session_dir ext_ok) req_best)"
proof -
  have a: "\<not> subtitles req_best" by (simp add: req_best_def)
  note t = no_subtitle_flags_without_subtitles [OF a, of env_empty "''/tmp/downloads/s''" ext_ok]
  from t have "yt_dlp_args env_empty ''/tmp/downloads/s''
       (req_best\<lparr>embed_subs := True, subtitle_langs := Some [''de'', ''fr'']\<rparr>) =
     yt_dlp_args env_empty ''/tmp/downloads/s'' req_best" by blast
  also from t have "\<dots> = base_args ''/tmp/downloads/s'' req_best @ quality_args req_best @
      env_args env_empty" by blast
  also have "\<dots> = [''yt-dlp'', ''http://x/video'', ''-o'',
      ''/tmp/downloads/s/%(title)s-%(id)s.%(ext)s'',
      ''--merge-output-format'', ''mp4'', ''-f'', ''bestvideo+bestaudio/best'']"
    by (simp add: base_args_def quality_args_def outtmpl_of_def path_join_def startswith_def
        endswith_def env_args_def req_best_def env_empty_def lower_def lower_char_def)
  finally have first: "yt_dlp_args env_empty ''/tmp/downloads/s''
       (req_best\<lparr>embed_subs := True, subtitle_langs := Some [''de'', ''fr'']\<rparr>) =
     [''yt-dlp'', ''http://x/video'', ''-o'', ''/tmp/downloads/s/%(title)s-%(id)s.%(ext)s'',
      ''--merge-output-format'', ''mp4'', ''-f'', ''bestvideo+bestaudio/best'']" .
  from t have w: "''--write-subs'' \<notin> set (yt_dlp_args (environment ext_ok) (session_dir ext_ok) req_best)"
    by (auto simp: req_best_def ext_ok_def env_empty_def)
  from t have s: "''--sub-langs'' \<notin> set (yt_dlp_args (environment ext_ok) (session_dir ext_ok) req_best)"
    by (auto simp: req_best_def ext_ok_def env_empty_def)
  from t have e: "''--embed-subs'' \<notin> set (yt_dlp_args (environment ext_ok) (session_dir ext_ok) req_best)"
    by (auto simp: req_best_def ext_ok_def env_empty_def)
  from first w s e show ?thesis by blast
qed

text \<open>
  The claim as first stated (none of the three flags in the list of any request with
  \<open>subtitles = False\<close>) fails for the request whose URL is the string \<open>--write-subs\<close>.
\<close>

theorem subtitles_off_url_flag_counterexample:
  "\<not> subtitles req_url_write_subs
   \<and> yt_dlp_args env_empty ''/tmp/downloads/s'' req_url_write_subs =
     [''yt-dlp'', ''--write-subs'', ''-o'', ''/tmp/downloads/s/%(title)s-%(id)s.%(ext)s'',
      ''--merge-output-format'', ''mp4'', ''-f'', ''bestvideo+bestaudio/best'']
   \<and> ''--write-subs'' \<in> set (yt_dlp_args env_empty ''/tmp/downloads/s'' req_url_write_subs)"
  by (simp add: yt_dlp_args_def base_args_def quality_args_def outtmpl_of_def path_join_def
      startswith_def endswith_def subtitle_args_def env_args_def req_url_write_subs_def
      env_empty_def lower_def lower_char_def)

text \<open>
  C10. For a request with \<open>subtitles = True\<close> whose \<open>subtitle_langs\<close> is \<open>None\<close> or the empty
  list, the joined language string is \<open>en\<close> (so it is not empty), and the argument list
  contains \<open>--write-subs\<close>, \<open>--sub-langs\<close>, \<open>en\<close> in a row.
\<close>

theorem sub_langs_default_en:
  assumes "subtitles req"
    and "subtitle_langs req = None \<or> subtitle_langs req = Some []"
  shows "sub_langs req = ''en'' \<and> sub_langs req \<noteq> []
         \<and> subtitle_args req =
             [''--write-subs'', ''--sub-langs'', ''en''] @
             (if embed_subs req then [''--embed-subs''] else [])
         \<and> (\<exists>pre post. yt_dlp_args ev out_dir req =
               pre @ [''--write-subs'', ''--sub-langs'', ''en''] @ post)"
proof -
  from assms(2) have l: "sub_langs req = ''en''"
    by (auto simp: sub_langs_def)
  then have ne: "sub_langs req \<noteq> []" by simp
  from assms(1) l have s: "subtitle_args req =
      [''--write-subs'', ''--sub-langs'', ''en''] @
      (if embed_subs req then [''--embed-subs''] else [])"
    by (simp add: subtitle_args_def)
  have "yt_dlp_args ev out_dir req =
      (base_args out_dir req @ quality_args req) @ [''--write-subs'', ''--sub-langs'', ''en''] @
      ((if embed_subs req then [''--embed-subs''] else []) @ env_args ev)"
    by (simp add: yt_dlp_args_def s)
  then have ex: "\<exists>pre post. yt_dlp_args ev out_dir req =
               pre @ [''--write-subs'', ''--sub-langs'', ''en''] @ post" by blast
  from l ne s ex show ?thesis by blast
qed

theorem sub_langs_default_en_witness:
  "yt_dlp_args env_empty ''/tmp/downloads/s'' req_subs_no_langs =
     [''yt-dlp'', ''http://x/video'', ''-o'', ''/tmp/downloads/s/%(title)s-%(id)s.%(ext)s'',
      ''--merge-output-format'', ''mp4'', ''-f'', ''bestvideo+bestaudio/best'',
      ''--write-subs'', ''--sub-langs'', ''en'', ''--embed-subs'']
   \<and> sub_langs (req_subs_no_langs\<lparr>subtitle_langs := None\<rparr>) = ''en''"
proof -
  have a: "subtitles req_subs_no_langs" by (simp add: req_subs_no_langs_def)
  have b: "subtitle_langs req_subs_no_langs = None \<or> subtitle_langs req_subs_no_langs = Some []"
    by (simp add: req_subs_no_langs_def)
  have a': "subtitles (req_subs_no_langs\<lparr>subtitle_langs := None\<rparr>)"
    by (simp add: req_subs_no_langs_def)
  have b': "subtitle_langs (req_subs_no_langs\<lparr>subtitle_langs := None\<rparr>) = None \<or>
            subtitle_langs (req_subs_no_langs\<lparr>subtitle_langs := None\<rparr>) = Some []"
    by simp
  from sub_langs_default_en [OF a b, of env_empty "''/tmp/downloads/s''"]
  have s: "subtitle_args req_subs_no_langs =
      [''--write-subs'', ''--sub-langs'', ''en''] @
      (if embed_subs req_subs_no_langs then [''--embed-subs''] else [])" by blast
  have "yt_dlp_args env_empty ''/tmp/downloads/s'' req_subs_no_langs =
     [''yt-dlp'', ''http://x/video'', ''-o'', ''/tmp/downloads/s/%(title)s-%(id)s.%(ext)s'',
      ''--merge-output-format'', ''mp4'', ''-f'', ''bestvideo+bestaudio/best'',
      ''--write-subs'', ''--sub-langs'', ''en'', ''--embed-subs'']"
    unfolding yt_dlp_args_def s
    by (simp add: base_args_def quality_args_def outtmpl_of_def path_join_def startswith_def
        endswith_def env_args_def req_subs_no_langs_def env_empty_def lower_def lower_char_def)
  moreover from sub_langs_default_en [OF a' b', of env_empty "''/tmp/downloads/s''"]
  have "sub_langs (req_subs_no_langs\<lparr>subtitle_langs := None\<rparr>) = ''en''" by blast
  ultimately show ?thesis by blast
qed

section \<open>Running the fetch tool\<close>

lemma hex_fixed_zero: "hex_fixed k 0 = replicate k CHR ''0''"
  by (induction k) (simp_all add: hex_digit_def replicate_append_same)

lemma uuid_str_zero: "uuid_str 0 = ''00000000-0000-0000-0000-000000000000''"
  by (simp add: uuid_str_def hex_fixed_zero eval_nat_numeral)

lemma session_dir_ext_ok:
  "session_dir ext_ok = ''/tmp/downloads/00000000-0000-0000-0000-000000000000''"
  by (simp add: session_dir_def ext_ok_def env_empty_def DOWNLOAD_ROOT_def uuid_str_zero
      path_join_def startswith_def endswith_def)

lemma unat_byte_of_char: "unat (of_nat (of_char c) :: byte) = of_char c"
  by (simp add: unat_of_nat)

lemma ascii_decode_bytes:
  "ascii_decode (ascii_bytes s) =
     (if list_all (\<lambda>c. (of_char c :: nat) < 128) s then Some s else None)"
  by (simp add: ascii_decode_def ascii_bytes_def list_all_iff unat_byte_of_char map_idI)

lemma universal_newlines_plain: "CHR 0x0D \<notin> set s \<Longrightarrow> universal_newlines s = s"
  by (induction s rule: universal_newlines.induct) auto

lemma universal_newlines_empty: "universal_newlines s = [] \<longleftrightarrow> s = []"
  by (induction s rule: universal_newlines.induct) auto

lemma run_cmd_spawned: "spawned (snd (run_cmd ext w cmd)) = spawned w @ [cmd]"
  by (simp add: run_cmd_def Let_def split: proc_result.splits option.splits)

lemma run_cmd_recorder: "recorder_calls (snd (run_cmd ext w cmd)) = recorder_calls w \<and>
    stored (snd (run_cmd ext w cmd)) = stored w"
  by (simp add: run_cmd_def Let_def split: proc_result.splits option.splits)


lemma try_create_document_spawned:
  "spawned (snd (try_create_document ext w c d)) = spawned w"
  by (simp add: try_create_document_def Let_def split: recorder_outcome.splits)

lemma yt_dlp_download_spawned:
  assumes "makedirs ext (session_dir ext) (fs w) = Some f1"
  shows "spawned (snd (yt_dlp_download ext w req)) =
         spawned w @ [yt_dlp_args (environment ext) (session_dir ext) req]"
proof -
  let ?w1 = "w\<lparr>fs := f1\<rparr>"
  let ?args = "yt_dlp_args (environment ext) (session_dir ext) req"
  have s: "spawned (snd (run_cmd ext ?w1 ?args)) = spawned w @ [?args]"
    using run_cmd_spawned [of ext ?w1 ?args] by simp
  show ?thesis
  proof (cases "run_cmd ext ?w1 ?args")
    case (Pair r w2)
    with s have w2: "spawned w2 = spawned w @ [?args]" by simp
    show ?thesis
    proof (cases r)
      case (Inl e)
      with assms Pair w2 show ?thesis by (simp add: yt_dlp_download_def Let_def)
    next
      case (Inr out)
      let ?chosen = "find_artifact (fs w2) (session_dir ext)"
      let ?t = "try_create_document ext w2 ''history'' (history_doc ext req ?chosen out)"
      have "spawned (snd ?t) = spawned w2" by (rule try_create_document_spawned)
      with w2 have t: "spawned (snd ?t) = spawned w @ [?args]" by simp
      obtain eo w3 where tw: "?t = (eo, w3)" by (cases ?t)
      with t have w3: "spawned w3 = spawned w @ [?args]" by simp
      show ?thesis
        using assms Pair Inr tw w3
        by (cases eo) (simp_all add: yt_dlp_download_def Let_def)
    qed
  qed
qed

text \<open>
  C4. The URL is the second element of the argument list, as given: changing the URL changes
  that element and no other, so the URL is never joined or escaped into another token. When
  the session directory can be made, \<open>yt_dlp_download\<close> hands exactly this list, as a list,
  to the process runner, once.
\<close>

theorem url_is_one_token:
  "1 < length (yt_dlp_args ev out_dir req)
   \<and> yt_dlp_args ev out_dir req ! 1 = url req
   \<and> (\<forall>u. yt_dlp_args ev out_dir (req\<lparr>url := u\<rparr>) = (yt_dlp_args ev out_dir req)[1 := u])
   \<and> (\<forall>f1. makedirs ext (session_dir ext) (fs w) = Some f1 \<longrightarrow>
        spawned (snd (yt_dlp_download ext w req)) =
        spawned w @ [yt_dlp_args (environment ext) (session_dir ext) req])"
proof -
  have len: "1 < length (yt_dlp_args ev out_dir req)"
    by (simp add: yt_dlp_args_def base_args_def)
  have at1: "yt_dlp_args ev out_dir req ! 1 = url req"
    by (simp add: yt_dlp_args_def base_args_def)
  have upd: "\<forall>u. yt_dlp_args ev out_dir (req\<lparr>url := u\<rparr>) = (yt_dlp_args ev out_dir req)[1 := u]"
    by (simp add: yt_dlp_args_def base_args_def outtmpl_of_def quality_args_def
        subtitle_args_def sub_langs_def)
  have run: "\<forall>f1. makedirs ext (session_dir ext) (fs w) = Some f1 \<longrightarrow>
        spawned (snd (yt_dlp_download ext w req)) =
        spawned w @ [yt_dlp_args (environment ext) (session_dir ext) req]"
    using yt_dlp_download_spawned by blast
  from len at1 upd run show ?thesis by blast
qed

theorem url_is_one_token_witness:
  "yt_dlp_args env_empty ''/tmp/downloads/s'' (req_best\<lparr>url := ''http://x/v?a=1&b=$(id); rm''\<rparr>) ! 1
     = ''http://x/v?a=1&b=$(id); rm''
   \<and> spawned (snd (yt_dlp_download ext_ok world_empty req_best)) =
       [[''yt-dlp'', ''http://x/video'', ''-o'',
         ''/tmp/downloads/00000000-0000-0000-0000-000000000000/%(title)s-%(id)s.%(ext)s'',
         ''--merge-output-format'', ''mp4'', ''-f'', ''bestvideo+bestaudio/best'']]"
proof -
  let ?r = "req_best\<lparr>url := ''http://x/v?a=1&b=$(id); rm''\<rparr>"
  have m: "makedirs ext_ok (session_dir ext_ok) (fs world_empty) = Some fs_empty"
    by (simp add: ext_ok_def world_empty_def)
  have "yt_dlp_args env_empty ''/tmp/downloads/s'' ?r ! 1 = url ?r"
    using url_is_one_token [of env_empty "''/tmp/downloads/s''" ?r ext_ok world_empty]
    by blast
  then have a: "yt_dlp_args env_empty ''/tmp/downloads/s'' ?r ! 1 = ''http://x/v?a=1&b=$(id); rm''"
    by simp
  have "spawned (snd (yt_dlp_download ext_ok world_empty req_best)) =
        spawned world_empty @ [yt_dlp_args (environment ext_ok) (session_dir ext_ok) req_best]"
    using url_is_one_token [of env_empty "''/tmp/downloads/s''" req_best ext_ok world_empty] m
    by blast
  also have "\<dots> = [[''yt-dlp'', ''http://x/video'', ''-o'',
         ''/tmp/downloads/00000000-0000-0000-0000-000000000000/%(title)s-%(id)s.%(ext)s'',
         ''--merge-output-format'', ''mp4'', ''-f'', ''bestvideo+bestaudio/best'']]"
    unfolding session_dir_ext_ok
    by (simp add: world_empty_def yt_dlp_args_def base_args_def quality_args_def outtmpl_of_def
        path_join_def startswith_def endswith_def subtitle_args_def env_args_def req_best_def
        ext_ok_def env_empty_def lower_def lower_char_def)
  finally show ?thesis using a by blast
qed

section \<open>The process runner and the not-found path of the converter\<close>

lemma length_last_chars: "length (last_chars n s) = min n (length s)"
  by (auto simp: last_chars_def)

lemma last_chars_suffix: "take (length s - n) s @ last_chars n s = s"
  by (simp add: last_chars_def)

lemma last_chars_short: "length s \<le> n \<Longrightarrow> last_chars n s = s"
  by (simp add: last_chars_def)

text \<open>
  C6. When the input path does not exist, \<open>ffmpeg_convert\<close> (and the endpoint over it) fails
  with the 404 error \<open>Input file not found\<close> and leaves the world as it was: no process is
  started, \<open>create_document\<close> is not called, nothing is stored.
\<close>

theorem convert_input_not_found:
  assumes "\<not> path_exists (fs w) (input_path req)"
  shows "ffmpeg_convert ext w req = (Inl (HTTPException 404 ''Input file not found''), w)
         \<and> convert_media ext w req = (Inl (HTTPException 404 ''Input file not found''), w)"
  using assms by (simp add: ffmpeg_convert_def convert_media_def)

theorem convert_input_not_found_witness:
  "fst (ffmpeg_convert ext_ok world_empty req_convert) =
     Inl (HTTPException 404 ''Input file not found'')
   \<and> spawned (snd (ffmpeg_convert ext_ok world_empty req_convert)) = []
   \<and> recorder_calls (snd (ffmpeg_convert ext_ok world_empty req_convert)) = []
   \<and> stored (snd (ffmpeg_convert ext_ok world_empty req_convert)) = []"
proof -
  have a: "\<not> path_exists (fs world_empty) (input_path req_convert)"
    by (simp add: world_empty_def fs_empty_def)
  from convert_input_not_found [OF a, of ext_ok]
  have "ffmpeg_convert ext_ok world_empty req_convert =
      (Inl (HTTPException 404 ''Input file not found''), world_empty)" by blast
  then show ?thesis by (simp add: world_empty_def)
qed

text \<open>
  C9 (as amended). For a process that ran and exited: when its combined output does not
  decode, \<open>run_cmd\<close> lets the \<open>UnicodeDecodeError\<close> escape, whatever the exit code. When it
  decodes: on exit code zero the decoded output is returned, with universal newlines
  applied and otherwise whole (unchanged when it has no carriage return); on a non-zero exit
  with a non-empty output the failure is the 500 error whose detail is the last 2000
  characters of that output (the whole of it when it is shorter); on a non-zero exit with
  an empty output the detail is the text of the \<open>CalledProcessError\<close> instead.
\<close>

theorem run_cmd_result:
  assumes "tool_result ext cmd (fs w) = Exited rc raw"
  shows "(decode ext raw = None \<longrightarrow> fst (run_cmd ext w cmd) = Inl UnicodeDecodeError)
       \<and> (\<forall>text. decode ext raw = Some text \<longrightarrow>
            (rc = 0 \<longrightarrow> fst (run_cmd ext w cmd) = Inr (universal_newlines text))
          \<and> (rc \<noteq> 0 \<and> text \<noteq> [] \<longrightarrow>
               fst (run_cmd ext w cmd) =
                 Inl (HTTPException 500 (last_chars 2000 (universal_newlines text)))
               \<and> length (last_chars 2000 (universal_newlines text)) =
                   min 2000 (length (universal_newlines text))
               \<and> take (length (universal_newlines text) - 2000) (universal_newlines text) @
                   last_chars 2000 (universal_newlines text) = universal_newlines text)
          \<and> (rc \<noteq> 0 \<and> text = [] \<longrightarrow>
               fst (run_cmd ext w cmd) =
                 Inl (HTTPException 500 (str_CalledProcessError ext cmd rc))))
       \<and> (\<forall>text. CHR 0x0D \<notin> set text \<longrightarrow> universal_newlines text = text)"
proof -
  have none: "fst (run_cmd ext w cmd) = Inl UnicodeDecodeError" if "decode ext raw = None"
    using assms that by (simp add: run_cmd_def Let_def)
  have some: "(rc = 0 \<longrightarrow> fst (run_cmd ext w cmd) = Inr (universal_newlines decoded))
          \<and> (rc \<noteq> 0 \<and> decoded \<noteq> [] \<longrightarrow>
               fst (run_cmd ext w cmd) =
                 Inl (HTTPException 500 (last_chars 2000 (universal_newlines decoded)))
               \<and> length (last_chars 2000 (universal_newlines decoded)) =
                   min 2000 (length (universal_newlines decoded))
               \<and> take (length (universal_newlines decoded) - 2000) (universal_newlines decoded) @
                   last_chars 2000 (universal_newlines decoded) = universal_newlines decoded)
          \<and> (rc \<noteq> 0 \<and> decoded = [] \<longrightarrow>
               fst (run_cmd ext w cmd) =
                 Inl (HTTPException 500 (str_CalledProcessError ext cmd rc)))"
    if "decode ext raw = Some decoded" for decoded
    using assms that
    by (simp add: run_cmd_def Let_def length_last_chars last_chars_suffix
        universal_newlines_empty)
  have plain: "\<forall>text. CHR 0x0D \<notin> set text \<longrightarrow> universal_newlines text = text"
    by (simp add: universal_newlines_plain)
  from none some plain show ?thesis by blast
qed

lemma ascii_decode_noisy:
  "ascii_decode (ascii_bytes (replicate 2500 CHR ''x'' @ ''a/video.mp4: Invalid data'')) =
     Some (replicate 2500 CHR ''x'' @ ''a/video.mp4: Invalid data'')"
  by (simp add: ascii_decode_bytes list_all_iff)

lemma ascii_decode_done: "ascii_decode (ascii_bytes ''done'') = Some ''done''"
  by (simp add: ascii_decode_bytes)

theorem run_cmd_result_witness:
  "fst (run_cmd ext_fail_noisy world_empty probe_cmd) =
     Inl (HTTPException 500 (replicate 1975 CHR ''x'' @ ''a/video.mp4: Invalid data''))
   \<and> fst (run_cmd ext_ok world_empty probe_cmd) = Inr ''done''
   \<and> fst (run_cmd ext_undecodable world_empty probe_cmd) = Inl UnicodeDecodeError"
proof -
  let ?out = "replicate 2500 CHR ''x'' @ ''a/video.mp4: Invalid data''"
  have a: "tool_result ext_fail_noisy probe_cmd (fs world_empty) = Exited 1 (ascii_bytes ?out)"
    by (simp add: ext_fail_noisy_def ext_ok_def)
  have a': "decode ext_fail_noisy (ascii_bytes ?out) = Some ?out"
    using ascii_decode_noisy by (simp add: ext_fail_noisy_def ext_ok_def)
  have n: "universal_newlines ?out = ?out"
    by (rule universal_newlines_plain) simp
  have l: "last_chars 2000 ?out = replicate 1975 CHR ''x'' @ ''a/video.mp4: Invalid data''"
    by (simp add: last_chars_def)
  from run_cmd_result [OF a] a'
  have "fst (run_cmd ext_fail_noisy world_empty probe_cmd) =
      Inl (HTTPException 500 (last_chars 2000 (universal_newlines ?out)))" by simp
  with n l have x: "fst (run_cmd ext_fail_noisy world_empty probe_cmd) =
     Inl (HTTPException 500 (replicate 1975 CHR ''x'' @ ''a/video.mp4: Invalid data''))"
    by simp
  have b: "tool_result ext_ok probe_cmd (fs world_empty) = Exited 0 (ascii_bytes ''done'')"
    by (simp add: ext_ok_def)
  have b': "decode ext_ok (ascii_bytes ''done'') = Some ''done''"
    using ascii_decode_done by (simp add: ext_ok_def)
  from run_cmd_result [OF b] b'
  have y: "fst (run_cmd ext_ok world_empty probe_cmd) = Inr ''done''" by simp
  have c: "tool_result ext_undecodable probe_cmd (fs world_empty) = Exited 0 [0x6F, 0x6B, 0xFF]"
    by (simp add: ext_undecodable_def ext_ok_def)
  have c': "decode ext_undecodable [0x6F, 0x6B, 0xFF] = None"
    by (simp add: ext_undecodable_def ext_ok_def ascii_decode_def)
  from run_cmd_result [OF c] c'
  have z: "fst (run_cmd ext_undecodable world_empty probe_cmd) = Inl UnicodeDecodeError"
    by simp
  from x y z show ?thesis by blast
qed

text \<open>
  The claim as first stated (the failure always carries the captured output, truncated)
  fails for a process that exits non-zero without printing anything: the detail is then the
  exception's own message, not the empty output.
\<close>

theorem run_cmd_silent_failure_counterexample:
  "tool_result ext_fail_silent probe_cmd (fs world_empty) = Exited 1 []
   \<and> decode ext_fail_silent [] = Some []
   \<and> fst (run_cmd ext_fail_silent world_empty probe_cmd) =
       Inl (HTTPException 500
         ''Command '['ffprobe', '-hide_banner', '-i', 'a/video.mp4']' returned non-zero exit status 1.'')
   \<and> fst (run_cmd ext_fail_silent world_empty probe_cmd) \<noteq>
       Inl (HTTPException 500 (last_chars 2000 []))"
  by (simp add: run_cmd_def ext_fail_silent_def ext_ok_def last_chars_def ascii_decode_def)

section \<open>The artifact locator: first media file or the workspace directory\<close>

lemma is_media_iff:
  "is_media f \<longleftrightarrow> (\<exists>e \<in> set media_extensions. \<exists>stem. f = stem @ e)"
proof -
  have "endswith f e \<longleftrightarrow> (\<exists>stem. f = stem @ e)" for e
  proof
    assume "endswith f e"
    then have "f = take (length f - length e) f @ e"
      by (simp add: endswith_def) (metis append_take_drop_id)
    then show "\<exists>stem. f = stem @ e" by blast
  next
    assume "\<exists>stem. f = stem @ e"
    then show "endswith f e" by (auto simp add: endswith_def)
  qed
  then show ?thesis by (simp add: is_media_def list_ex_iff)
qed

lemma is_media_nonempty: "is_media f \<Longrightarrow> f \<noteq> []"
  by (auto simp add: is_media_def media_extensions_def endswith_def)

lemma scan_files_find:
  "scan_files c root fnames =
     (case find is_media fnames of None \<Rightarrow> c | Some f \<Rightarrow> Some (path_join root f))"
  by (induction fnames) simp_all

lemma find_map_Pair:
  "find (\<lambda>e. is_media (snd e)) (map (Pair root) fnames) =
     map_option (Pair root) (find is_media fnames)"
  by (induction fnames) simp_all

lemma find_append_case:
  "find P (xs @ ys) = (case find P xs of None \<Rightarrow> find P ys | Some x \<Rightarrow> Some x)"
  by (induction xs) simp_all

lemma scan_walk_find:
  "scan_walk None wk =
     (case find (\<lambda>e. is_media (snd e)) (walk_entries wk) of
        None \<Rightarrow> None | Some e \<Rightarrow> Some (path_join (fst e) (snd e)))"
proof (induction wk)
  case Nil
  show ?case by (simp add: walk_entries_def)
next
  case (Cons t wk)
  obtain root dirs fnames where t: "t = (root, dirs, fnames)" by (cases t)
  have we: "walk_entries ((root, dirs, fnames) # wk) = map (Pair root) fnames @ walk_entries wk"
    by (simp add: walk_entries_def)
  show ?case
  proof (cases "find is_media fnames")
    case None
    then show ?thesis
      using Cons.IH by (simp add: t we find_append_case find_map_Pair scan_files_find)
  next
    case (Some f)
    then have "is_media f" by (auto simp add: find_Some_iff)
    then have "path_join root f \<noteq> []" by (simp add: is_media_nonempty path_join_nonempty)
    then show ?thesis
      using Some by (simp add: t we find_append_case find_map_Pair scan_files_find)
  qed
qed

lemma locate_find:
  "locate out_dir wk =
     (case find (\<lambda>e. is_media (snd e)) (walk_entries wk) of
        None \<Rightarrow> out_dir | Some e \<Rightarrow> path_join (fst e) (snd e))"
proof (cases "find (\<lambda>e. is_media (snd e)) (walk_entries wk)")
  case None
  then show ?thesis by (simp add: locate_def scan_walk_find)
next
  case (Some e)
  then have "is_media (snd e)" by (auto simp add: find_Some_iff)
  then have "path_join (fst e) (snd e) \<noteq> []" by (simp add: is_media_nonempty path_join_nonempty)
  then show ?thesis using Some by (simp add: locate_def scan_walk_find)
qed

lemma find_first:
  assumes "xs = pre @ x # post" "P x" "\<forall>y \<in> set pre. \<not> P y"
  shows "find P xs = Some x"
  using assms by (induction pre arbitrary: xs) auto

lemma walk_entries_walk:
  "walk_entries (walk d (Node fnames ds)) =
     map (Pair d) fnames @
     concat (map (\<lambda>s. case snd s of None \<Rightarrow> []
                        | Some t \<Rightarrow> walk_entries (walk (path_join d (fst s)) t)) ds)"
proof -
  have "walk_entries (concat (map g ds)) = concat (map (\<lambda>s. walk_entries (g s)) ds)" for g
    by (induction ds) (simp_all add: walk_entries_def)
  moreover have "walk_entries (case snd s of None \<Rightarrow> [] | Some t \<Rightarrow> walk (path_join d (fst s)) t)
      = (case snd s of None \<Rightarrow> [] | Some t \<Rightarrow> walk_entries (walk (path_join d (fst s)) t))" for s
    by (cases "snd s") (simp_all add: walk_entries_def)
  ultimately show ?thesis
    by (simp add: walk_entries_def)
qed

lemma is_media_examples:
  "\<not> is_media ''video.info.json''" "\<not> is_media ''notes.txt''" "\<not> is_media ''clip.MP4''"
  "\<not> is_media ''cover.jpg''" "is_media ''a.webm''" "is_media ''b.mp3''"
  by (simp_all add: is_media_def media_extensions_def endswith_def)

lemma path_join_examples:
  "path_join ''/tmp/downloads/s'' ''linked'' = ''/tmp/downloads/s/linked''"
  "path_join ''/tmp/downloads/s'' ''thumbs'' = ''/tmp/downloads/s/thumbs''"
  "path_join ''/tmp/downloads/s'' ''media'' = ''/tmp/downloads/s/media''"
  "path_join ''/tmp/downloads/s/media'' ''a.webm'' = ''/tmp/downloads/s/media/a.webm''"
  by (simp_all add: path_join_def startswith_def endswith_def)

lemma walk_entries_info_only:
  "walk_entries (walk ''/tmp/downloads/s'' tree_info_only) =
     [(''/tmp/downloads/s'', ''video.info.json'')]"
  by (simp add: walk_entries_def tree_info_only_def)

lemma walk_entries_nested:
  "walk_entries (walk ''/tmp/downloads/s'' tree_nested) =
     [(''/tmp/downloads/s'', ''notes.txt''), (''/tmp/downloads/s'', ''clip.MP4'')] @
     (''/tmp/downloads/s/thumbs'', ''cover.jpg'') # (''/tmp/downloads/s/media'', ''a.webm'') #
     [(''/tmp/downloads/s/media'', ''b.mp3'')]"
  by (simp add: walk_entries_def tree_nested_def path_join_examples)

text \<open>C7. The artifact locator is a total function with no error result. Over the files in
  the order the walk visits them (the files of a directory in listing order, then its
  subdirectories in listing order, top-down), it returns the path of the first file whose
  name ends with one of \<open>.mp4 .mp3 .mkv .webm .m4a .opus .wav\<close>; when no visited file has such
  a name it returns the workspace directory itself. The test is a case-sensitive suffix test
  on the file name. A workspace directory that cannot be listed counts as having no
  files.\<close>

theorem locate_first_media_file:
  "locate out_dir wk =
     (case find (\<lambda>e. is_media (snd e)) (walk_entries wk) of
        None \<Rightarrow> out_dir | Some e \<Rightarrow> path_join (fst e) (snd e))
   \<and> ((\<forall>e \<in> set (walk_entries wk). \<not> is_media (snd e)) \<longrightarrow> locate out_dir wk = out_dir)
   \<and> (\<forall>pre root f post.
        walk_entries wk = pre @ (root, f) # post \<and> is_media f
        \<and> (\<forall>e \<in> set pre. \<not> is_media (snd e))
        \<longrightarrow> locate out_dir wk = path_join root f)
   \<and> (is_media f \<longleftrightarrow> (\<exists>e \<in> set media_extensions. \<exists>stem. f = stem @ e))
   \<and> find_artifact fv out_dir =
       (case tree_at fv out_dir of
          None \<Rightarrow> out_dir
        | Some t \<Rightarrow> locate out_dir (walk out_dir t))
   \<and> walk_entries (walk d (Node fnames ds)) =
       map (Pair d) fnames @
       concat (map (\<lambda>s. case snd s of None \<Rightarrow> []
                          | Some t \<Rightarrow> walk_entries (walk (path_join d (fst s)) t)) ds)"
proof -
  have a: "(\<forall>e \<in> set (walk_entries wk). \<not> is_media (snd e)) \<longrightarrow> locate out_dir wk = out_dir"
  proof
    assume "\<forall>e \<in> set (walk_entries wk). \<not> is_media (snd e)"
    then have "find (\<lambda>e. is_media (snd e)) (walk_entries wk) = None"
      by (auto simp add: find_None_iff)
    then show "locate out_dir wk = out_dir" by (simp add: locate_find)
  qed
  have b: "\<forall>pre root f post.
        walk_entries wk = pre @ (root, f) # post \<and> is_media f
        \<and> (\<forall>e \<in> set pre. \<not> is_media (snd e))
        \<longrightarrow> locate out_dir wk = path_join root f"
  proof (intro allI impI)
    fix pre root f post
    assume h: "walk_entries wk = pre @ (root, f) # post \<and> is_media f
        \<and> (\<forall>e \<in> set pre. \<not> is_media (snd e))"
    then have "find (\<lambda>e. is_media (snd e)) (walk_entries wk) = Some (root, f)"
      by (intro find_first [where pre = pre and post = post]) simp_all
    then show "locate out_dir wk = path_join root f" by (simp add: locate_find)
  qed
  have c: "find_artifact fv out_dir =
       (case tree_at fv out_dir of
          None \<Rightarrow> out_dir
        | Some t \<Rightarrow> locate out_dir (walk out_dir t))"
    by (cases "tree_at fv out_dir") (simp_all add: find_artifact_def locate_def)
  show ?thesis
    using a b c locate_find [of out_dir wk] is_media_iff [of f] walk_entries_walk [of d fnames ds]
    by blast
qed

text \<open>A workspace holding only \<open>video.info.json\<close> gives the workspace directory. In a
  workspace with \<open>notes.txt\<close>, \<open>clip.MP4\<close>, a symbolic link to a directory, \<open>thumbs/cover.jpg\<close>
  and \<open>media/a.webm\<close>, \<open>media/b.mp3\<close>, the locator returns \<open>media/a.webm\<close>: the link is not
  descended into and the upper-case extension does not match.\<close>

theorem locate_first_media_file_witness:
  "locate ''/tmp/downloads/s'' (walk ''/tmp/downloads/s'' tree_info_only) = ''/tmp/downloads/s''
   \<and> locate ''/tmp/downloads/s'' (walk ''/tmp/downloads/s'' tree_nested) =
       ''/tmp/downloads/s/media/a.webm''
   \<and> map fst (walk ''/tmp/downloads/s'' tree_nested) =
       [''/tmp/downloads/s'', ''/tmp/downloads/s/thumbs'', ''/tmp/downloads/s/media'']
   \<and> find_artifact fs_empty ''/tmp/downloads/s'' = ''/tmp/downloads/s''"
proof -
  have a: "locate ''/tmp/downloads/s'' (walk ''/tmp/downloads/s'' tree_info_only) =
      ''/tmp/downloads/s''"
  proof -
    have "(\<forall>e \<in> set (walk_entries (walk ''/tmp/downloads/s'' tree_info_only)).
             \<not> is_media (snd e))
          \<longrightarrow> locate ''/tmp/downloads/s'' (walk ''/tmp/downloads/s'' tree_info_only) =
                ''/tmp/downloads/s''"
      using locate_first_media_file
        [of "''/tmp/downloads/s''" "walk ''/tmp/downloads/s'' tree_info_only"]
      by blast
    then show ?thesis by (simp add: walk_entries_info_only is_media_examples)
  qed
  have b: "locate ''/tmp/downloads/s'' (walk ''/tmp/downloads/s'' tree_nested) =
      ''/tmp/downloads/s/media/a.webm''"
  proof -
    have "\<forall>pre root f post.
        walk_entries (walk ''/tmp/downloads/s'' tree_nested) = pre @ (root, f) # post
        \<and> is_media f \<and> (\<forall>e \<in> set pre. \<not> is_media (snd e))
        \<longrightarrow> locate ''/tmp/downloads/s'' (walk ''/tmp/downloads/s'' tree_nested) =
              path_join root f"
      using locate_first_media_file
        [of "''/tmp/downloads/s''" "walk ''/tmp/downloads/s'' tree_nested"]
      by blast
    then have "walk_entries (walk ''/tmp/downloads/s'' tree_nested) =
          [(''/tmp/downloads/s'', ''notes.txt''), (''/tmp/downloads/s'', ''clip.MP4''),
           (''/tmp/downloads/s/thumbs'', ''cover.jpg'')]
          @ (''/tmp/downloads/s/media'', ''a.webm'') # [(''/tmp/downloads/s/media'', ''b.mp3'')]
        \<and> is_media ''a.webm''
        \<and> (\<forall>e \<in> set [(''/tmp/downloads/s'', ''notes.txt''), (''/tmp/downloads/s'', ''clip.MP4''),
                       (''/tmp/downloads/s/thumbs'', ''cover.jpg'')]. \<not> is_media (snd e))
        \<longrightarrow> locate ''/tmp/downloads/s'' (walk ''/tmp/downloads/s'' tree_nested) =
              path_join ''/tmp/downloads/s/media'' ''a.webm''"
      by blast
    then show ?thesis
      by (simp add: walk_entries_nested is_media_examples path_join_examples)
  qed
  have c: "map fst (walk ''/tmp/downloads/s'' tree_nested) =
       [''/tmp/downloads/s'', ''/tmp/downloads/s/thumbs'', ''/tmp/downloads/s/media'']"
    by (simp add: tree_nested_def path_join_examples)
  have d: "find_artifact fs_empty ''/tmp/downloads/s'' = ''/tmp/downloads/s''"
    using locate_first_media_file [where fv = fs_empty and out_dir = "''/tmp/downloads/s''"]
    by (simp add: fs_empty_def)
  show ?thesis using a b c d by blast
qed

section \<open>Recording outcomes after a successful invocation\<close>



lemma splitext_video: "splitext ''a/video.mp4'' = (''a/video'', ''.mp4'')"
  by (simp add: splitext_def has_non_dot.simps)




lemma session_dir_recorder_interrupted:
  "session_dir ext_recorder_interrupted = ''/tmp/downloads/00000000-0000-0000-0000-000000000000''"
  using session_dir_ext_ok by (simp add: session_dir_def ext_recorder_interrupted_def ext_ok_def)




section \<open>The convert invocation builder: output path and command\<close>

lemma rfind_ge: "- 1 \<le> rfind p c"
  by (induction p) (simp_all add: Let_def)

lemma rfind_none: "rfind p c = - 1 \<longleftrightarrow> c \<notin> set p"
proof (induction p)
  case Nil
  show ?case by simp
next
  case (Cons x xs)
  have "- 1 \<le> rfind xs c" by (rule rfind_ge)
  then show ?case using Cons by (auto simp add: Let_def)
qed

lemma rfind_after: "rfind p c < int i \<Longrightarrow> c \<notin> set (drop i p)"
proof (induction p arbitrary: i)
  case Nil
  show ?case by simp
next
  case (Cons x xs)
  have ge: "- 1 \<le> rfind xs c" by (rule rfind_ge)
  show ?case
  proof (cases i)
    case 0
    with Cons.prems ge have "rfind (x # xs) c = - 1"
      using rfind_ge [of "x # xs" c] by simp
    then have "c \<notin> set (x # xs)" using rfind_none [of "x # xs" c] by blast
    with 0 show ?thesis by simp
  next
    case (Suc j)
    have "rfind xs c < int j"
    proof (cases "rfind xs c = - 1")
      case True
      then show ?thesis by simp
    next
      case False
      with Cons.prems Suc show ?thesis by (simp add: Let_def)
    qed
    then have "c \<notin> set (drop j xs)" by (rule Cons.IH)
    with Suc show ?thesis by simp
  qed
qed

lemma rfind_at:
  "0 \<le> rfind p c \<Longrightarrow> \<exists>rest. drop (nat (rfind p c)) p = c # rest \<and> c \<notin> set rest"
proof (induction p)
  case Nil
  then show ?case by simp
next
  case (Cons x xs)
  have ge: "- 1 \<le> rfind xs c" by (rule rfind_ge)
  show ?case
  proof (cases "rfind xs c = - 1")
    case True
    with Cons.prems have xc: "x = c" by (simp add: Let_def split: if_splits)
    from True have "c \<notin> set xs" using rfind_none [of xs c] by blast
    with True xc show ?thesis by (simp add: Let_def)
  next
    case False
    with ge have pos: "0 \<le> rfind xs c" by simp
    from Cons.IH [OF pos] obtain rest where
      r: "drop (nat (rfind xs c)) xs = c # rest" "c \<notin> set rest" by blast
    have "nat (rfind xs c + 1) = Suc (nat (rfind xs c))" using pos by simp
    with False r show ?thesis by (simp add: Let_def)
  qed
qed

lemma splitext_concat: "fst (splitext p) @ snd (splitext p) = p"
  by (simp add: splitext_def Let_def)

lemma splitext_ext:
  "snd (splitext p) = [] \<or>
   (\<exists>rest. snd (splitext p) = CHR ''.'' # rest \<and> CHR ''.'' \<notin> set rest \<and> CHR ''/'' \<notin> set rest)"
proof (cases "rfind p CHR ''.'' > rfind p CHR ''/'' \<and>
    has_non_dot p (nat (rfind p CHR ''/'' + 1)) (nat (rfind p CHR ''.''))")
  case False
  then have "snd (splitext p) = []" unfolding splitext_def Let_def by auto
  then show ?thesis by blast
next
  case True
  then have s: "snd (splitext p) = drop (nat (rfind p CHR ''.'')) p"
    by (simp add: splitext_def Let_def)
  from True rfind_ge [of p "CHR ''/''"] have pos: "0 \<le> rfind p CHR ''.''" by simp
  from rfind_at [OF pos] obtain rest where
    r: "drop (nat (rfind p CHR ''.'')) p = CHR ''.'' # rest" "CHR ''.'' \<notin> set rest" by blast
  have "rfind p CHR ''/'' < int (nat (rfind p CHR ''.''))" using True pos by simp
  then have "CHR ''/'' \<notin> set (drop (nat (rfind p CHR ''.'')) p)" by (rule rfind_after)
  with r have "CHR ''/'' \<notin> set rest" by simp
  with s r show ?thesis by simp
qed

lemma ffmpeg_convert_spawned:
  assumes "path_exists (fs w) (input_path req)"
  shows "spawned (snd (ffmpeg_convert ext w req)) = spawned w @ [convert_cmd req]"
proof -
  have s: "spawned (snd (run_cmd ext w (convert_cmd req))) = spawned w @ [convert_cmd req]"
    by (rule run_cmd_spawned)
  show ?thesis
  proof (cases "run_cmd ext w (convert_cmd req)")
    case (Pair r w2)
    with s have w2: "spawned w2 = spawned w @ [convert_cmd req]" by simp
    show ?thesis
    proof (cases r)
      case (Inl e)
      with assms Pair w2 show ?thesis by (simp add: ffmpeg_convert_def)
    next
      case (Inr out)
      let ?t = "try_create_document ext w2 ''conversions'' (conversion_doc req)"
      have "spawned (snd ?t) = spawned w2" by (rule try_create_document_spawned)
      with w2 have t: "spawned (snd ?t) = spawned w @ [convert_cmd req]" by simp
      obtain eo w3 where tw: "?t = (eo, w3)" by (cases ?t)
      with t have w3: "spawned w3 = spawned w @ [convert_cmd req]" by simp
      show ?thesis
        using assms Pair Inr tw w3
        by (cases eo) (simp_all add: ffmpeg_convert_def)
    qed
  qed
qed

text \<open>
  C5 (as amended). The output path is the input path without its extension, followed by
  \<open>_conv.\<close> and the output format; the extension is what \<open>os.path.splitext\<close> splits off:
  nothing, or the last dot of the last path component and what follows it. The command is
  \<open>ffmpeg\<close>, \<open>-y\<close>, \<open>-i\<close> and the input path, then \<open>-ss\<close> and the start when the start is a
  non-empty string, then \<open>-to\<close> and the end when the end is a non-empty string, then the
  extra arguments as given, and the output path last. A start or an end that is absent or
  the empty string adds nothing. When the input path exists, this list is what
  \<open>ffmpeg_convert\<close> hands to the process runner, once.
\<close>

theorem convert_builder_command:
  "convert_out_path req =
     fst (splitext (input_path req)) @ ''_conv.'' @ format_str (output_format req)
   \<and> fst (splitext (input_path req)) @ snd (splitext (input_path req)) = input_path req
   \<and> (snd (splitext (input_path req)) = [] \<or>
      (\<exists>rest. snd (splitext (input_path req)) = CHR ''.'' # rest
              \<and> CHR ''.'' \<notin> set rest \<and> CHR ''/'' \<notin> set rest))
   \<and> convert_cmd req =
       [''ffmpeg'', ''-y'', ''-i'', input_path req] @
       (case start req of None \<Rightarrow> [] | Some s \<Rightarrow> if s = [] then [] else [''-ss'', s]) @
       (case end_time req of None \<Rightarrow> [] | Some e \<Rightarrow> if e = [] then [] else [''-to'', e]) @
       (case extra_args req of None \<Rightarrow> [] | Some xs \<Rightarrow> xs) @
       [convert_out_path req]
   \<and> last (convert_cmd req) = convert_out_path req
   \<and> (path_exists (fs w) (input_path req) \<longrightarrow>
        spawned (snd (ffmpeg_convert ext w req)) = spawned w @ [convert_cmd req])"
proof -
  have a: "convert_out_path req =
     fst (splitext (input_path req)) @ ''_conv.'' @ format_str (output_format req)"
    by (simp add: convert_out_path_def Let_def)
  have b: "convert_cmd req =
       [''ffmpeg'', ''-y'', ''-i'', input_path req] @
       (case start req of None \<Rightarrow> [] | Some s \<Rightarrow> if s = [] then [] else [''-ss'', s]) @
       (case end_time req of None \<Rightarrow> [] | Some e \<Rightarrow> if e = [] then [] else [''-to'', e]) @
       (case extra_args req of None \<Rightarrow> [] | Some xs \<Rightarrow> xs) @
       [convert_out_path req]"
    by (simp add: convert_cmd_def split: option.splits)
  have c: "last (convert_cmd req) = convert_out_path req"
    by (simp add: convert_cmd_def)
  have d: "path_exists (fs w) (input_path req) \<longrightarrow>
        spawned (snd (ffmpeg_convert ext w req)) = spawned w @ [convert_cmd req]"
    using ffmpeg_convert_spawned by blast
  from a b c d splitext_concat [of "input_path req"] splitext_ext [of "input_path req"]
  show ?thesis by blast
qed

text \<open>The conversion of \<open>a/video.mp4\<close> to mp3, trimmed from \<open>00:00:10\<close> to \<open>00:00:20\<close> with
  three extra arguments, writes to \<open>a/video_conv.mp3\<close>.\<close>

theorem convert_builder_command_witness:
  "convert_out_path req_trim = ''a/video_conv.mp3''
   \<and> convert_cmd req_trim =
       [''ffmpeg'', ''-y'', ''-i'', ''a/video.mp4'', ''-ss'', ''00:00:10'', ''-to'', ''00:00:20'',
        ''-vn'', ''-b:a'', ''192k'', ''a/video_conv.mp3'']
   \<and> spawned (snd (ffmpeg_convert ext_ok world_with_video req_trim)) =
       [[''ffmpeg'', ''-y'', ''-i'', ''a/video.mp4'', ''-ss'', ''00:00:10'', ''-to'', ''00:00:20'',
         ''-vn'', ''-b:a'', ''192k'', ''a/video_conv.mp3'']]"
proof -
  note T = convert_builder_command [of req_trim world_with_video ext_ok]
  have x: "path_exists (fs world_with_video) (input_path req_trim)"
    by (simp add: world_with_video_def fs_downloaded_def req_trim_def)
  have i: "input_path req_trim = ''a/video.mp4''" by (simp add: req_trim_def)
  from T have "convert_out_path req_trim =
     fst (splitext (input_path req_trim)) @ ''_conv.'' @ format_str (output_format req_trim)"
    by blast
  then have a: "convert_out_path req_trim = ''a/video_conv.mp3''"
    by (simp add: i splitext_video) (simp add: req_trim_def)
  from T have "convert_cmd req_trim =
       [''ffmpeg'', ''-y'', ''-i'', input_path req_trim] @
       (case start req_trim of None \<Rightarrow> [] | Some s \<Rightarrow> if s = [] then [] else [''-ss'', s]) @
       (case end_time req_trim of None \<Rightarrow> [] | Some e \<Rightarrow> if e = [] then [] else [''-to'', e]) @
       (case extra_args req_trim of None \<Rightarrow> [] | Some xs \<Rightarrow> xs) @
       [convert_out_path req_trim]"
    by blast
  then have b: "convert_cmd req_trim =
       [''ffmpeg'', ''-y'', ''-i'', ''a/video.mp4'', ''-ss'', ''00:00:10'', ''-to'', ''00:00:20'',
        ''-vn'', ''-b:a'', ''192k'', ''a/video_conv.mp3'']"
    unfolding a by (simp add: req_trim_def)
  from T x have "spawned (snd (ffmpeg_convert ext_ok world_with_video req_trim)) =
      spawned world_with_video @ [convert_cmd req_trim]"
    by blast
  then have c: "spawned (snd (ffmpeg_convert ext_ok world_with_video req_trim)) =
       [[''ffmpeg'', ''-y'', ''-i'', ''a/video.mp4'', ''-ss'', ''00:00:10'', ''-to'', ''00:00:20'',
         ''-vn'', ''-b:a'', ''192k'', ''a/video_conv.mp3'']]"
    unfolding b by (simp add: world_with_video_def world_empty_def)
  from a b c show ?thesis by blast
qed

text \<open>
  The claim as first stated (\<open>-ss\<close> with the start whenever the start is set) fails for a
  request whose start is the empty string: the field is set, the input exists, and the
  command has no \<open>-ss\<close>, because \<open>if req.start:\<close> tests truthiness.
\<close>

theorem convert_empty_start_counterexample:
  "path_exists (fs world_with_video) (input_path req_empty_start)
   \<and> start req_empty_start = Some ''''
   \<and> convert_cmd req_empty_start =
       [''ffmpeg'', ''-y'', ''-i'', ''a/video.mp4'', ''a/video_conv.mp3'']
   \<and> ''-ss'' \<notin> set (convert_cmd req_empty_start)
   \<and> convert_cmd req_empty_start \<noteq>
       [''ffmpeg'', ''-y'', ''-i'', ''a/video.mp4'', ''-ss'', '''', ''a/video_conv.mp3'']"
proof -
  have o: "convert_out_path req_empty_start = ''a/video_conv.mp3''"
    by (simp add: convert_out_path_def req_empty_start_def splitext_video)
  have c: "convert_cmd req_empty_start =
       [''ffmpeg'', ''-y'', ''-i'', ''a/video.mp4'', ''a/video_conv.mp3'']"
    unfolding convert_cmd_def o by (simp add: req_empty_start_def)
  have x: "path_exists (fs world_with_video) (input_path req_empty_start)"
    by (simp add: world_with_video_def fs_downloaded_def req_empty_start_def)
  have s: "start req_empty_start = Some ''''" by (simp add: req_empty_start_def)
  show ?thesis unfolding c using x s by simp
qed

end
